theory Spec2Isabelle
  imports Complex_Main
begin

section \<open>The Kress automatic tool changer (Spindles/KressATC.cpp)\<close>

text \<open>
  A shallow embedding of \<^verbatim>\<open>FluidNC/src/Spindles/KressATC.cpp\<close>. Every member function of
  \<^verbatim>\<open>KressATC\<close> is a HOL function from the state before the call to the state after it (and
  the returned \<^verbatim>\<open>bool\<close> where the source returns one). The state holds the members of the
  object, the global machine state the file reads and writes (\<^verbatim>\<open>gc_state\<close>, \<^verbatim>\<open>sys\<close>,
  \<^verbatim>\<open>lastAlarm\<close>, the motor and probe positions), the ordered list of actions the code
  performs on its collaborators, and the log.

  \<^verbatim>\<open>float\<close> values are elements of a type \<open>'f\<close> of which only the operations \<open>+\<close> and \<open>-\<close>
  are used and no law is assumed, so every theorem holds for the machine's floating-point
  arithmetic as it holds for the integers used in the concrete evaluations. The
  floating-point literals of the source that are passed straight to a G-code line
  (\<^verbatim>\<open>0.25\<close>, \<^verbatim>\<open>0.5\<close>, \<^verbatim>\<open>2.0\<close>) are rationals.
\<close>

subsection \<open>Data\<close>

datatype axis = X_AXIS | Y_AXIS | Z_AXIS

text \<open>Modelled from the spec: the enumerations \<^verbatim>\<open>SpindleState\<close>, \<^verbatim>\<open>Distance\<close>, \<^verbatim>\<open>State\<close> and
  \<^verbatim>\<open>ExecAlarm\<close> are declared in headers that are not part of the sources. The file only names
  \<^verbatim>\<open>SpindleState::Disable\<close>, \<^verbatim>\<open>Distance::Incremental\<close>, \<^verbatim>\<open>State::Alarm\<close> and
  \<^verbatim>\<open>ExecAlarm::ProbeFailInitial\<close>; the spec gives the distance mode the two values
  incremental and absolute.\<close>

datatype SpindleState = Disable | Cw | Ccw

datatype Distance = Absolute | Incremental

datatype State = Idle | Alarm | CheckMode | Homing | Cycle | Hold | Jog | SafetyDoor | Sleep | ConfigAlarm

datatype ExecAlarm = NoAlarm | HardLimit | SoftLimit | AbortCycle | ProbeFailInitial | ProbeFailContact
  | HomingFailReset | HomingFailDoor | HomingFailPulloff | HomingFailApproach | SpindleControl

text \<open>The G-code lines the file sends through \<^verbatim>\<open>gc_exec_linef\<close>, one constructor for each
  format string, with the arguments of the format.\<close>

datatype 'f gcode =
    G4_P rat                \<comment> \<open>\<^verbatim>\<open>G4 P%0.2f\<close> and \<^verbatim>\<open>G4 P2.0\<close>: dwell, in seconds\<close>
  | G53_G0_Z 'f             \<comment> \<open>\<^verbatim>\<open>G53 G0 Z%0.3f\<close>\<close>
  | G53_G0_XY 'f 'f         \<comment> \<open>\<^verbatim>\<open>G53 G0 X%0.3f Y%0.3f\<close>\<close>
  | G53_G0_XYZ 'f 'f 'f     \<comment> \<open>\<^verbatim>\<open>G53 G0 X%0.3f Y%0.3f Z%0.3f\<close>\<close>
  | G38_2 rat 'f            \<comment> \<open>\<^verbatim>\<open>G38.2 F%0.3f Z%0.3f\<close>\<close>
  | G43_1 'f                \<comment> \<open>\<^verbatim>\<open>G43.1 Z%0.3f\<close>\<close>
  | G90 | G91 | M3 | M5 | M7 | M8 | M9

datatype pin = atc_valve_pin | atc_dustoff_pin | toolsetter_dustoff

text \<open>What the code does to its collaborators, in order. A pin write also records the modal
  spindle state in which it happens, and every assignment to \<^verbatim>\<open>current_tool\<close> leaves an
  event, so that the order of actuation, motion and bookkeeping can be read off the list.\<close>

datatype 'f event =
    GCode bool "'f gcode"            \<comment> \<open>\<^verbatim>\<open>gc_exec_linef(sync_after, line)\<close>\<close>
  | PinWrite pin bool SpindleState   \<comment> \<open>\<^verbatim>\<open>pin.synchronousWrite(value)\<close>, and \<^verbatim>\<open>gc_state.modal.spindle\<close> then\<close>
  | SetAttrOutput pin                \<comment> \<open>\<^verbatim>\<open>pin.setAttr(Pin::Attr::Output)\<close>\<close>
  | BufferSync                       \<comment> \<open>\<^verbatim>\<open>protocol_buffer_synchronize()\<close>\<close>
  | ToolAssigned nat                 \<comment> \<open>\<^verbatim>\<open>current_tool = n\<close>\<close>

datatype level = Debug | Info | Warn | Error

record 'f tool_t =
  mpos :: "axis \<Rightarrow> 'f"
  offset :: "axis \<Rightarrow> 'f"

text \<open>The global state of the firmware that the file reads or that a G-code line can change.
  \<open>motor_mpos\<close> is \<^verbatim>\<open>motor_steps_to_mpos\<close> of \<^verbatim>\<open>get_motor_steps()\<close>, \<open>probe_mpos\<close> is
  \<^verbatim>\<open>motor_steps_to_mpos\<close> of \<^verbatim>\<open>probe_steps\<close>.\<close>

record 'f machine =
  modal_distance :: Distance
  modal_spindle :: SpindleState
  coolant_Flood :: bool
  coolant_Mist :: bool
  coord_system :: "axis \<Rightarrow> 'f"
  coord_offset :: "axis \<Rightarrow> 'f"
  tool_length_offset :: 'f
  sys_state :: State
  lastAlarm :: ExecAlarm
  motor_mpos :: "axis \<Rightarrow> 'f"
  probe_mpos :: "axis \<Rightarrow> 'f"

text \<open>What the file takes from elsewhere and never changes: the constants of
  \<^verbatim>\<open>KressATC.h\<close> (not part of the sources, so they are parameters), the configuration, and
  the collaborators. \<open>gc_execute_line\<close> is the G-code interpreter: the effect of one line on
  the global state. It completes the line before it returns, so that waiting for the motion
  to end changes nothing more. The interpreter and the base-class functions do not see the
  members of \<^verbatim>\<open>KressATC\<close>; the one call back into the object, \<^verbatim>\<open>probe_notification\<close> at the
  end of a probing cycle, does nothing while \<^verbatim>\<open>tool_setter_probing\<close> is set (lemma
  \<open>probe_notification_while_probing\<close>).\<close>

record 'f env =
  NO_TOOL :: nat
  MANUAL_CHG :: nat
  TOOL_COUNT :: nat
  ETS_INDEX :: nat
  TOOL_GRAB_TIME :: rat
  PROBE_FEEDRATE :: rat
  spindown_ms :: nat                  \<comment> \<open>\<^verbatim>\<open>spindle->_spindown_ms\<close>\<close>
  atc_valve_pin_defined :: bool       \<comment> \<open>\<^verbatim>\<open>_atc_valve_pin.defined()\<close>\<close>
  ets_mpos :: "'f list"               \<comment> \<open>\<^verbatim>\<open>_ets_mpos\<close>\<close>
  tool_mpos :: "nat \<Rightarrow> 'f list"       \<comment> \<open>\<^verbatim>\<open>_tool_mpos[i]\<close>\<close>
  empty_safe_z :: 'f                  \<comment> \<open>\<^verbatim>\<open>_empty_safe_z\<close>\<close>
  limitsMaxPosition_Z :: 'f           \<comment> \<open>\<^verbatim>\<open>limitsMaxPosition(Z_AXIS)\<close>\<close>
  pulloff_Z :: 'f                     \<comment> \<open>\<^verbatim>\<open>config->_axes->_axis[Z_AXIS]->_motors[0]->_pulloff\<close>\<close>
  gc_execute_line :: "'f gcode \<Rightarrow> 'f machine \<Rightarrow> 'f machine"
  OnOff_init :: "'f machine \<Rightarrow> 'f machine"
  Spindle_activate :: "'f machine \<Rightarrow> 'f machine"
  Spindle_deactivate :: "'f machine \<Rightarrow> 'f machine"

text \<open>The members of the object, the global state, and the two histories. The table
  \<^verbatim>\<open>tool[]\<close> is total here; the source indexes a C array, where an index past its end is
  undefined behaviour.\<close>

record 'f atc =
  atc_ok :: bool
  current_tool :: nat
  zeroed_tool_index :: nat
  tool :: "nat \<Rightarrow> 'f tool_t"
  top_of_z :: 'f
  tool_setter_probing :: bool
  machine :: "'f machine"
  trace :: "'f event list"
  logged :: "(level \<times> string) list"

record 'f snapshot =
  was_incremental_mode :: bool
  spindle_was_on :: bool
  coolant_state_flood :: bool
  coolant_state_mist :: bool
  saved_mpos :: "axis \<Rightarrow> 'f"

subsection \<open>Primitives\<close>

text \<open>The log macros; of a message only the fixed text is kept.\<close>

definition log_msg :: "level \<Rightarrow> string \<Rightarrow> 'f atc \<Rightarrow> 'f atc" where
  "log_msg l txt s = s\<lparr>logged := logged s @ [(l, txt)]\<rparr>"

definition gc_exec_linef :: "'f env \<Rightarrow> bool \<Rightarrow> 'f gcode \<Rightarrow> 'f atc \<Rightarrow> 'f atc" where
  "gc_exec_linef E sync_after line s =
     s\<lparr>machine := gc_execute_line E line (machine s), trace := trace s @ [GCode sync_after line]\<rparr>"

definition synchronousWrite :: "pin \<Rightarrow> bool \<Rightarrow> 'f atc \<Rightarrow> 'f atc" where
  "synchronousWrite p v s = s\<lparr>trace := trace s @ [PinWrite p v (modal_spindle (machine s))]\<rparr>"

definition setAttr :: "pin \<Rightarrow> 'f atc \<Rightarrow> 'f atc" where
  "setAttr p s = s\<lparr>trace := trace s @ [SetAttrOutput p]\<rparr>"

definition protocol_buffer_synchronize :: "'f atc \<Rightarrow> 'f atc" where
  "protocol_buffer_synchronize s = s\<lparr>trace := trace s @ [BufferSync]\<rparr>"

definition set_current_tool :: "nat \<Rightarrow> 'f atc \<Rightarrow> 'f atc" where
  "set_current_tool n s = s\<lparr>current_tool := n, trace := trace s @ [ToolAssigned n]\<rparr>"

subsection \<open>Initialisation (lines 51 to 101)\<close>

definition assign_mpos :: "nat \<Rightarrow> 'f list \<Rightarrow> 'f atc \<Rightarrow> 'f atc" where
  "assign_mpos i xs s =
     s\<lparr>tool := (tool s)(i := (tool s i)\<lparr>mpos :=
          (mpos (tool s i))(X_AXIS := xs ! 0, Y_AXIS := xs ! 1, Z_AXIS := xs ! 2)\<rparr>)\<rparr>"

text \<open>The loop over the tool slots, on the list of the indices still to visit.\<close>

fun atc_init_loop :: "'f env \<Rightarrow> nat list \<Rightarrow> 'f atc \<Rightarrow> bool \<times> 'f atc" where
  "atc_init_loop E [] s = (True, s)"
| "atc_init_loop E (i # rest) s =
     (if length (tool_mpos E i) \<noteq> 3
      then (False, log_msg Error ''ATC Tool mpos wrong. Tool:'' s)
      else atc_init_loop E rest (assign_mpos (i + 1) (tool_mpos E i) s))"

definition atc_init :: "('f::minus) env \<Rightarrow> 'f atc \<Rightarrow> bool \<times> 'f atc" where
  "atc_init E s =
     (if spindown_ms E = 0
      then (False, log_msg Error ''ATC operation requires a Spindle spindown > 0ms'' s)
      else
        let s1 = setAttr toolsetter_dustoff (setAttr atc_dustoff_pin (setAttr atc_valve_pin s)) in
        if \<not> atc_valve_pin_defined E
        then (False, log_msg Error ''ATC: must be defined'' s1)
        else
          let s2 = log_msg Info ''ATC Toolsetter Dustoff Valve:''
                     (log_msg Info ''ATC Dustoff Valve:'' (log_msg Info ''ATC Valve:'' s1));
              s3 = s2\<lparr>top_of_z := limitsMaxPosition_Z E - pulloff_Z E\<rparr>
          in
          if length (ets_mpos E) \<noteq> 3
          then (False, log_msg Error ''ATC ETS mpos wrong'' s3)
          else atc_init_loop E [0..<TOOL_COUNT E] (assign_mpos (ETS_INDEX E) (ets_mpos E) s3))"

definition init :: "('f::minus) env \<Rightarrow> 'f atc \<Rightarrow> 'f atc" where
  "init E s =
     (let s1 = s\<lparr>machine := OnOff_init E (machine s)\<rparr>;
          r = atc_init E s1
      in (snd r)\<lparr>atc_ok := fst r\<rparr>)"

definition is_ATC_ok :: "'f atc \<Rightarrow> bool" where
  "is_ATC_ok s = atc_ok s"

subsection \<open>Actuation and motion (lines 233 to 251, 293 to 295)\<close>

definition set_ATC_state :: "bool \<Rightarrow> 'f atc \<Rightarrow> bool \<times> 'f atc" where
  "set_ATC_state opn s =
     (if modal_spindle (machine s) \<noteq> Disable
      then (False, log_msg Error ''Spindle active when trying to operate ATC'' s)
      else (True, synchronousWrite atc_valve_pin opn s))"

definition goto_top_of_z :: "'f env \<Rightarrow> 'f atc \<Rightarrow> 'f atc" where
  "goto_top_of_z E s = gc_exec_linef E True (G53_G0_Z (top_of_z s)) s"

definition go_above_tool :: "'f env \<Rightarrow> nat \<Rightarrow> 'f atc \<Rightarrow> 'f atc" where
  "go_above_tool E tool_num s =
     (let s1 = goto_top_of_z E s
      in gc_exec_linef E False
           (G53_G0_XY (mpos (tool s1 tool_num) X_AXIS) (mpos (tool s1 tool_num) Y_AXIS)) s1)"

definition atc_ETS_dustoff :: "'f env \<Rightarrow> 'f atc \<Rightarrow> 'f atc" where
  "atc_ETS_dustoff E s =
     synchronousWrite atc_dustoff_pin False
       (gc_exec_linef E True (G4_P 0.5) (synchronousWrite atc_dustoff_pin True s))"

subsection \<open>Picking up and returning a tool (lines 208 to 231)\<close>

definition take_tool :: "'f env \<Rightarrow> nat \<Rightarrow> 'f atc \<Rightarrow> bool \<times> 'f atc" where
  "take_tool E tool_num s =
     (let s0 = log_msg Debug ''Get tool: '' s;
          s1 = go_above_tool E tool_num s0;
          s2 = snd (set_ATC_state True s1);
          s3 = gc_exec_linef E True (G4_P 0.25) s2;
          s4 = gc_exec_linef E True (G53_G0_Z (mpos (tool s3 tool_num) Z_AXIS)) s3;
          s5 = gc_exec_linef E True (G4_P 0.25) s4;
          s6 = snd (set_ATC_state False s5);
          s7 = gc_exec_linef E True (G4_P (TOOL_GRAB_TIME E)) s6;
          s8 = set_current_tool tool_num s7
      in (True, goto_top_of_z E s8))"

text \<open>The two states in which \<open>take_tool\<close> calls \<open>set_ATC_state\<close>: the one in which the holder
  is to be opened (after lines 209 to 210) and the one in which it is to be closed (after
  lines 209 to 214).\<close>

definition take_tool_at_open :: "'f env \<Rightarrow> nat \<Rightarrow> 'f atc \<Rightarrow> 'f atc" where
  "take_tool_at_open E tool_num s = go_above_tool E tool_num (log_msg Debug ''Get tool: '' s)"

definition take_tool_at_close :: "'f env \<Rightarrow> nat \<Rightarrow> 'f atc \<Rightarrow> 'f atc" where
  "take_tool_at_close E tool_num s =
     (let s2 = snd (set_ATC_state True (take_tool_at_open E tool_num s));
          s3 = gc_exec_linef E True (G4_P 0.25) s2;
          s4 = gc_exec_linef E True (G53_G0_Z (mpos (tool s3 tool_num) Z_AXIS)) s3
      in gc_exec_linef E True (G4_P 0.25) s4)"

definition return_tool :: "'f env \<Rightarrow> nat \<Rightarrow> 'f atc \<Rightarrow> bool \<times> 'f atc" where
  "return_tool E tool_num s =
     (let s0 = log_msg Debug ''Return tool: '' s;
          s1 = go_above_tool E tool_num s0;
          s2 = gc_exec_linef E True (G53_G0_Z (mpos (tool s1 tool_num) Z_AXIS)) s1;
          s3 = snd (set_ATC_state True s2);
          s4 = gc_exec_linef E True (G53_G0_Z (empty_safe_z E)) s3;
          s5 = snd (set_ATC_state False s4)
      in (True, set_current_tool (NO_TOOL E) s5))"

subsection \<open>Measuring the tool (lines 253 to 287, 297 to 303)\<close>

text \<open>The cycle up to the probing move (lines 257 to 267).\<close>

definition probing_move :: "('f::{plus,minus}) env \<Rightarrow> 'f atc \<Rightarrow> 'f atc" where
  "probing_move E s =
     (let s1 = goto_top_of_z E (atc_ETS_dustoff E s);
          s2 = gc_exec_linef E True
                 (G53_G0_XY (mpos (tool s1 (ETS_INDEX E)) X_AXIS) (mpos (tool s1 (ETS_INDEX E)) Y_AXIS)) s1;
          wco = coord_system (machine s2) Z_AXIS + coord_offset (machine s2) Z_AXIS
                  + tool_length_offset (machine s2);
          probe_to = mpos (tool s2 (ETS_INDEX E)) Z_AXIS - wco;
          s3 = gc_exec_linef E True (G38_2 (PROBE_FEEDRATE E) probe_to) (s2\<lparr>tool_setter_probing := True\<rparr>)
      in s3\<lparr>tool_setter_probing := False\<rparr>)"

definition record_offset :: "'f atc \<Rightarrow> 'f atc" where
  "record_offset s =
     s\<lparr>tool := (tool s)(current_tool s := (tool s (current_tool s))\<lparr>offset :=
          (offset (tool s (current_tool s)))(Z_AXIS := probe_mpos (machine s) Z_AXIS)\<rparr>)\<rparr>"

definition atc_toolsetter_probe :: "('f::{plus,minus}) env \<Rightarrow> 'f atc \<Rightarrow> bool \<times> 'f atc" where
  "atc_toolsetter_probe E s =
     (let s1 = probing_move E s in
      if sys_state (machine s1) = Alarm
      then (False, log_msg Error
                     (if lastAlarm (machine s1) = ProbeFailInitial
                      then ''ATC Probe Switch Error'' else ''ATC Probe Missing Tool Error'') s1)
      else
        let s2 = record_offset s1;
            s3 = (if zeroed_tool_index s2 \<noteq> 0
                  then let tlo = offset (tool s2 (current_tool s2)) Z_AXIS
                                   - offset (tool s2 (zeroed_tool_index s2)) Z_AXIS
                       in gc_exec_linef E False (G43_1 tlo) (log_msg Info ''ATC Tool No: TLO:'' s2)
                  else s2)
        in (True, goto_top_of_z E s3))"

definition probe_notification :: "'f atc \<Rightarrow> 'f atc" where
  "probe_notification s =
     (if sys_state (machine s) = Alarm \<or> tool_setter_probing s then s
      else s\<lparr>zeroed_tool_index := current_tool s\<rparr>)"

subsection \<open>The tool change (lines 103 to 206)\<close>

definition tool_change_manual :: "'f env \<Rightarrow> nat \<Rightarrow> 'f atc \<Rightarrow> 'f atc" where
  "tool_change_manual E new_tool s =
     (let s0 = log_msg Info ''Manual tool change: Toggle ATC'' s;
          s1 = snd (set_ATC_state True s0);
          s2 = gc_exec_linef E True (G4_P 2.0) s1;
          s3 = snd (set_ATC_state False s2)
      in set_current_tool new_tool s3)"

definition tool_preselect :: "nat \<Rightarrow> 'f atc \<Rightarrow> 'f atc" where
  "tool_preselect new_tool s = log_msg Warn ''Tool preselect not implemented:'' s"

text \<open>The state saved before the change (lines 136 to 141).\<close>

definition take_snapshot :: "'f atc \<Rightarrow> 'f snapshot" where
  "take_snapshot s =
     \<lparr>was_incremental_mode = (modal_distance (machine s) = Incremental),
      spindle_was_on = (modal_spindle (machine s) \<noteq> Disable),
      coolant_state_flood = coolant_Flood (machine s),
      coolant_state_mist = coolant_Mist (machine s),
      saved_mpos = motor_mpos (machine s)\<rparr>"

text \<open>Returning to the saved state (lines 182 to 205).\<close>

definition restore_state :: "('f::plus) env \<Rightarrow> 'f snapshot \<Rightarrow> 'f atc \<Rightarrow> 'f atc" where
  "restore_state E sn s =
     (let s1 = gc_exec_linef E False
                 (G53_G0_XYZ (saved_mpos sn X_AXIS) (saved_mpos sn Y_AXIS) (top_of_z s)) s;
          s2 = (if spindle_was_on sn then gc_exec_linef E False M3 s1 else s1);
          s3 = (if coolant_state_mist sn then gc_exec_linef E True M7 s2 else s2);
          s4 = (if coolant_state_flood sn then gc_exec_linef E True M8 s3 else s3);
          s5 = gc_exec_linef E False
                 (G53_G0_Z (saved_mpos sn Z_AXIS + tool_length_offset (machine s4))) s4;
          s6 = (if modal_distance (machine s5) = Incremental \<and> was_incremental_mode sn = False
                then gc_exec_linef E False G90 s5 else s5)
      in if modal_distance (machine s6) \<noteq> Incremental \<and> was_incremental_mode sn = True
         then gc_exec_linef E False G91 s6 else s6)"



text \<open>The automated change up to the measurement (lines 157 to 175).\<close>

definition swap_tools :: "'f env \<Rightarrow> nat \<Rightarrow> 'f snapshot \<Rightarrow> 'f atc \<Rightarrow> 'f atc" where
  "swap_tools E new_tool sn s =
     (let s1 = (if coolant_state_flood sn \<or> coolant_state_mist sn
                then gc_exec_linef E True M9 s else s);
          s2 = (if spindle_was_on sn then gc_exec_linef E True M5 s1 else s1);
          s3 = goto_top_of_z E s2;
          s4 = (if current_tool s3 \<noteq> NO_TOOL E then snd (return_tool E (current_tool s3) s3) else s3)
      in if new_tool \<noteq> NO_TOOL E then snd (take_tool E new_tool s4) else s4)"

definition tool_change :: "('f::{plus,minus}) env \<Rightarrow> nat \<Rightarrow> bool \<Rightarrow> 'f atc \<Rightarrow> bool \<times> 'f atc" where
  "tool_change E new_tool pre_select s =
     (let s0 = log_msg Debug '' tool change to: From: Preselect:'' s in
      if \<not> is_ATC_ok s0
      then (False, log_msg Error ''ATC not initialized, toolchange failed'' s0)
      else if new_tool > MANUAL_CHG E
      then (False, log_msg Error '':invalid tool number:'' s0)
      else if pre_select
      then (True, tool_preselect new_tool s0)
      else
        let s1 = protocol_buffer_synchronize s0;
            sn = take_snapshot s1
        in
        if current_tool s1 = MANUAL_CHG E \<or> new_tool = MANUAL_CHG E
        then
          (if spindle_was_on sn
           then (False, log_msg Error ''Spindle must not be active for a manual change'' s1)
           else if (current_tool s1 \<noteq> NO_TOOL E \<and> new_tool \<noteq> NO_TOOL E)
                   \<and> (current_tool s1 \<noteq> MANUAL_CHG E \<and> new_tool \<noteq> MANUAL_CHG E)
           then (False, log_msg Error
                   ''MANUAL_CHG sequences can only change from or to (NO_TOOL, MANUAL_CHG)'' s1)
           else (True, tool_change_manual E new_tool s1))
        else
          let r = atc_toolsetter_probe E (swap_tools E new_tool sn s1) in
          if \<not> fst r then (False, snd r)
          else (True, restore_state E sn (snd r)))"


subsection \<open>Activation and deactivation (lines 305 to 324)\<close>

text \<open>\<^verbatim>\<open>deactivate\<close> before the call of the base class (lines 306 to 316).\<close>

definition deactivate_atc :: "('f::{plus,minus}) env \<Rightarrow> 'f atc \<Rightarrow> 'f atc" where
  "deactivate_atc E s =
     (let s1 = snd (tool_change E 0 False (log_msg Debug ''Deactivating ATC spindle:'' s));
          s2 = log_msg Info ''Delta:'' (log_msg Info ''Surface:'' (log_msg Info ''ETS:'' s1))
      in s2\<lparr>machine := (machine s2)\<lparr>coord_offset :=
            (coord_offset (machine s2))(Z_AXIS := offset (tool s2 (zeroed_tool_index s2)) Z_AXIS)\<rparr>\<rparr>)"

definition deactivate :: "('f::{plus,minus}) env \<Rightarrow> 'f atc \<Rightarrow> 'f atc" where
  "deactivate E s =
     (let s1 = deactivate_atc E s in s1\<lparr>machine := Spindle_deactivate E (machine s1)\<rparr>)"

definition activate :: "'f env \<Rightarrow> 'f atc \<Rightarrow> 'f atc" where
  "activate E s =
     (let s1 = log_msg Debug ''Activating ATC spindle:'' s
      in s1\<lparr>machine := Spindle_activate E (machine s1)\<rparr>)"

subsection \<open>Sequences of calls\<close>

text \<open>The entry points of the object and its internal operations, called in any order,
  interleaved with G-code lines that the rest of the firmware executes on its own.\<close>

datatype 'f atc_call =
    Call_init
  | Call_tool_change nat bool
  | Call_tool_change_manual nat
  | Call_take_tool nat
  | Call_return_tool nat
  | Call_set_ATC_state bool
  | Call_atc_ETS_dustoff
  | Call_atc_toolsetter_probe
  | Call_probe_notification
  | Call_deactivate
  | Call_activate
  | Other_gcode "'f gcode"

fun exec_call :: "('f::{plus,minus}) env \<Rightarrow> 'f atc_call \<Rightarrow> 'f atc \<Rightarrow> 'f atc" where
  "exec_call E Call_init s = init E s"
| "exec_call E (Call_tool_change n p) s = snd (tool_change E n p s)"
| "exec_call E (Call_tool_change_manual n) s = tool_change_manual E n s"
| "exec_call E (Call_take_tool n) s = snd (take_tool E n s)"
| "exec_call E (Call_return_tool n) s = snd (return_tool E n s)"
| "exec_call E (Call_set_ATC_state b) s = snd (set_ATC_state b s)"
| "exec_call E Call_atc_ETS_dustoff s = atc_ETS_dustoff E s"
| "exec_call E Call_atc_toolsetter_probe s = snd (atc_toolsetter_probe E s)"
| "exec_call E Call_probe_notification s = probe_notification s"
| "exec_call E Call_deactivate s = deactivate E s"
| "exec_call E Call_activate s = activate E s"
| "exec_call E (Other_gcode line) s = s\<lparr>machine := gc_execute_line E line (machine s)\<rparr>"

fun run :: "('f::{plus,minus}) env \<Rightarrow> 'f atc_call list \<Rightarrow> 'f atc \<Rightarrow> 'f atc" where
  "run E [] s = s"
| "run E (c # cs) s = run E cs (exec_call E c s)"

subsection \<open>Properties of histories\<close>

text \<open>A write to the holder valve is in order when the spindle was disabled then.\<close>

fun valve_write_ok :: "'f event \<Rightarrow> bool" where
  "valve_write_ok (PinWrite p v sp) = (p = atc_valve_pin \<longrightarrow> sp = Disable)"
| "valve_write_ok _ = True"

definition valve_writes_disabled :: "'f event list \<Rightarrow> bool" where
  "valve_writes_disabled tr = list_all valve_write_ok tr"

fun is_motion :: "'f event \<Rightarrow> bool" where
  "is_motion (GCode sync line) = True"
| "is_motion _ = False"

fun is_pin_write :: "'f event \<Rightarrow> bool" where
  "is_pin_write (PinWrite p v sp) = True"
| "is_pin_write _ = False"

fun is_valve_write :: "'f event \<Rightarrow> bool" where
  "is_valve_write (PinWrite p v sp) = (p = atc_valve_pin)"
| "is_valve_write _ = False"

subsection \<open>A sample machine\<close>

text \<open>A small interpreter with the standard meaning of the lines, for the concrete
  evaluations. A probing move in the alarm state does nothing; otherwise the probe triggers
  where the machine stands.\<close>

fun gc_sim :: "'f gcode \<Rightarrow> 'f machine \<Rightarrow> 'f machine" where
  "gc_sim (G4_P t) m = m"
| "gc_sim (G53_G0_Z z) m = m\<lparr>motor_mpos := (motor_mpos m)(Z_AXIS := z)\<rparr>"
| "gc_sim (G53_G0_XY x y) m = m\<lparr>motor_mpos := (motor_mpos m)(X_AXIS := x, Y_AXIS := y)\<rparr>"
| "gc_sim (G53_G0_XYZ x y z) m =
     m\<lparr>motor_mpos := (motor_mpos m)(X_AXIS := x, Y_AXIS := y, Z_AXIS := z)\<rparr>"
| "gc_sim (G38_2 f z) m = (if sys_state m = Alarm then m else m\<lparr>probe_mpos := motor_mpos m\<rparr>)"
| "gc_sim (G43_1 z) m = m\<lparr>tool_length_offset := z\<rparr>"
| "gc_sim G90 m = m\<lparr>modal_distance := Absolute\<rparr>"
| "gc_sim G91 m = m\<lparr>modal_distance := Incremental\<rparr>"
| "gc_sim M3 m = m\<lparr>modal_spindle := Cw\<rparr>"
| "gc_sim M5 m = m\<lparr>modal_spindle := Disable\<rparr>"
| "gc_sim M7 m = m\<lparr>coolant_Mist := True\<rparr>"
| "gc_sim M8 m = m\<lparr>coolant_Flood := True\<rparr>"
| "gc_sim M9 m = m\<lparr>coolant_Flood := False, coolant_Mist := False\<rparr>"

text \<open>An interpreter that refuses every line.\<close>

definition gc_refuse :: "'f gcode \<Rightarrow> 'f machine \<Rightarrow> 'f machine" where
  "gc_refuse line m = m"


text \<open>The configuration of the example in the head of the source file, with four tools,
  tool number 0 for the empty holder and 5 for the manual change.\<close>

definition sim_env :: "int env" where
  "sim_env =
     \<lparr>NO_TOOL = 0, MANUAL_CHG = 5, TOOL_COUNT = 4, ETS_INDEX = 0,
      TOOL_GRAB_TIME = 0.25, PROBE_FEEDRATE = 300,
      spindown_ms = 4000, atc_valve_pin_defined = True,
      ets_mpos = [157, 142, -31],
      tool_mpos = (\<lambda>i. [197 + 40 * int i, 142, -26]),
      empty_safe_z = -10, limitsMaxPosition_Z = 0, pulloff_Z = 1,
      gc_execute_line = gc_sim,
      OnOff_init = (\<lambda>m. m), Spindle_activate = (\<lambda>m. m), Spindle_deactivate = (\<lambda>m. m)\<rparr>"

definition idle_machine :: "int machine" where
  "idle_machine =
     \<lparr>modal_distance = Absolute, modal_spindle = Disable,
      coolant_Flood = False, coolant_Mist = False,
      coord_system = (\<lambda>a. 0), coord_offset = (\<lambda>a. 0), tool_length_offset = 0,
      sys_state = Idle, lastAlarm = NoAlarm,
      motor_mpos = (\<lambda>a. 0)(X_AXIS := 50, Y_AXIS := 60, Z_AXIS := -20),
      probe_mpos = (\<lambda>a. 0)\<rparr>"

definition fresh_atc :: "int atc" where
  "fresh_atc =
     \<lparr>atc_ok = False, current_tool = 0, zeroed_tool_index = 0,
      tool = (\<lambda>i. \<lparr>mpos = (\<lambda>a. 0), offset = (\<lambda>a. 0)\<rparr>),
      top_of_z = 0, tool_setter_probing = False,
      machine = idle_machine, trace = [], logged = []\<rparr>"

text \<open>The object after a successful initialisation with this configuration: the table
  holds the configured positions and the safe height is \<open>-1\<close>.\<close>

definition ready_atc :: "int atc" where
  "ready_atc =
     fresh_atc\<lparr>atc_ok := True, top_of_z := -1,
       tool := (\<lambda>i. \<lparr>mpos = (if i = 0 then (\<lambda>a. 0)(X_AXIS := 157, Y_AXIS := 142, Z_AXIS := -31)
                             else if i \<le> 4
                             then (\<lambda>a. 0)(X_AXIS := 157 + 40 * int i, Y_AXIS := 142, Z_AXIS := -26)
                             else (\<lambda>a. 0)),
                      offset = (\<lambda>a. 0)\<rparr>)\<rparr>"

text \<open>The same with the spindle running.\<close>

definition spinning_atc :: "int atc" where
  "spinning_atc = ready_atc\<lparr>machine := idle_machine\<lparr>modal_spindle := Cw\<rparr>\<rparr>"




text \<open>The sample configuration with the interpreter that refuses every line.\<close>

definition refusing_env :: "int env" where
  "refusing_env = sim_env\<lparr>gc_execute_line := gc_refuse\<rparr>"


section \<open>Properties\<close>

lemmas prim_defs = log_msg_def gc_exec_linef_def synchronousWrite_def setAttr_def
  protocol_buffer_synchronize_def set_current_tool_def assign_mpos_def record_offset_def

subsection \<open>When the initialisation succeeds\<close>

lemma atc_init_loop_ok_iff:
  "fst (atc_init_loop E idx s) \<longleftrightarrow> (\<forall>i\<in>set idx. length (tool_mpos E i) = 3)"
  by (induction idx arbitrary: s) simp_all

lemma atc_init_ok_iff:
  "fst (atc_init E s) \<longleftrightarrow>
     spindown_ms E \<noteq> 0 \<and> atc_valve_pin_defined E \<and> length (ets_mpos E) = 3
       \<and> (\<forall>i<TOOL_COUNT E. length (tool_mpos E i) = 3)"
  by (auto simp add: atc_init_def Let_def atc_init_loop_ok_iff)

lemma init_atc_ok: "atc_ok (init E s) = fst (atc_init E (s\<lparr>machine := OnOff_init E (machine s)\<rparr>))"
  by (simp add: init_def Let_def)

text \<open>The sample object \<open>ready_atc\<close> is what the initialisation makes of \<open>fresh_atc\<close> with the
  sample configuration (up to the actions and the log of the initialisation itself).\<close>

lemma sample_initialisation:
  "atc_ok (init sim_env fresh_atc) = atc_ok ready_atc
   \<and> top_of_z (init sim_env fresh_atc) = top_of_z ready_atc
   \<and> map (\<lambda>i. map (mpos (tool (init sim_env fresh_atc) i)) [X_AXIS, Y_AXIS, Z_AXIS]) [0, 1, 2, 3, 4, 5]
       = map (\<lambda>i. map (mpos (tool ready_atc i)) [X_AXIS, Y_AXIS, Z_AXIS]) [0, 1, 2, 3, 4, 5]
   \<and> trace (init sim_env fresh_atc)
       = [SetAttrOutput atc_valve_pin, SetAttrOutput atc_dustoff_pin, SetAttrOutput toolsetter_dustoff]"
  by code_simp

subsection \<open>The holder valve is written only with the spindle disabled\<close>

lemma vw_append: "valve_writes_disabled (xs @ ys) = (valve_writes_disabled xs \<and> valve_writes_disabled ys)"
  by (simp add: valve_writes_disabled_def)

lemma vw_log_msg: "valve_writes_disabled (trace (log_msg l t s)) = valve_writes_disabled (trace s)"
  by (simp add: log_msg_def)
lemma vw_gc_exec_linef: "valve_writes_disabled (trace (gc_exec_linef E b c s)) = valve_writes_disabled (trace s)"
  by (simp add: gc_exec_linef_def valve_writes_disabled_def)
lemma vw_setAttr: "valve_writes_disabled (trace (setAttr p s)) = valve_writes_disabled (trace s)"
  by (simp add: setAttr_def valve_writes_disabled_def)
lemma vw_sync: "valve_writes_disabled (trace (protocol_buffer_synchronize s)) = valve_writes_disabled (trace s)"
  by (simp add: protocol_buffer_synchronize_def valve_writes_disabled_def)
lemma vw_set_current_tool: "valve_writes_disabled (trace (set_current_tool n s)) = valve_writes_disabled (trace s)"
  by (simp add: set_current_tool_def valve_writes_disabled_def)
lemma vw_assign_mpos: "valve_writes_disabled (trace (assign_mpos i xs s)) = valve_writes_disabled (trace s)"
  by (simp add: assign_mpos_def)
lemma vw_record_offset: "valve_writes_disabled (trace (record_offset s)) = valve_writes_disabled (trace s)"
  by (simp add: record_offset_def)
lemma vw_dustoff_write: "valve_writes_disabled (trace (synchronousWrite atc_dustoff_pin v s)) = valve_writes_disabled (trace s)"
  by (simp add: synchronousWrite_def valve_writes_disabled_def)
lemma vw_set_ATC_state: "valve_writes_disabled (trace (snd (set_ATC_state b s))) = valve_writes_disabled (trace s)"
  by (simp add: set_ATC_state_def synchronousWrite_def log_msg_def valve_writes_disabled_def)

lemmas vw_prims = vw_log_msg vw_gc_exec_linef vw_setAttr vw_sync vw_set_current_tool vw_assign_mpos
  vw_record_offset vw_dustoff_write vw_set_ATC_state

lemma vw_goto_top_of_z: "valve_writes_disabled (trace (goto_top_of_z E s)) = valve_writes_disabled (trace s)"
  by (simp add: goto_top_of_z_def vw_prims)
lemma vw_go_above_tool: "valve_writes_disabled (trace (go_above_tool E n s)) = valve_writes_disabled (trace s)"
  by (simp add: go_above_tool_def Let_def vw_prims vw_goto_top_of_z)
lemma vw_atc_ETS_dustoff: "valve_writes_disabled (trace (atc_ETS_dustoff E s)) = valve_writes_disabled (trace s)"
  by (simp add: atc_ETS_dustoff_def vw_prims)
lemma vw_take_tool: "valve_writes_disabled (trace (snd (take_tool E n s))) = valve_writes_disabled (trace s)"
  by (simp add: take_tool_def Let_def vw_prims vw_goto_top_of_z vw_go_above_tool)
lemma vw_return_tool: "valve_writes_disabled (trace (snd (return_tool E n s))) = valve_writes_disabled (trace s)"
  by (simp add: return_tool_def Let_def vw_prims vw_goto_top_of_z vw_go_above_tool)
lemma vw_probing_move: "valve_writes_disabled (trace (probing_move E s)) = valve_writes_disabled (trace s)"
  by (simp add: probing_move_def Let_def vw_prims vw_goto_top_of_z vw_atc_ETS_dustoff)
lemma vw_atc_toolsetter_probe: "valve_writes_disabled (trace (snd (atc_toolsetter_probe E s))) = valve_writes_disabled (trace s)"
  by (simp add: atc_toolsetter_probe_def Let_def vw_prims vw_goto_top_of_z vw_probing_move)
lemma vw_tool_change_manual: "valve_writes_disabled (trace (tool_change_manual E n s)) = valve_writes_disabled (trace s)"
  by (simp add: tool_change_manual_def Let_def vw_prims)
lemma vw_restore_state: "valve_writes_disabled (trace (restore_state E sn s)) = valve_writes_disabled (trace s)"
  by (simp add: restore_state_def Let_def vw_prims)
lemma vw_swap_tools: "valve_writes_disabled (trace (swap_tools E n sn s)) = valve_writes_disabled (trace s)"
  by (simp add: swap_tools_def Let_def vw_prims vw_goto_top_of_z vw_take_tool vw_return_tool)
lemma vw_tool_change: "valve_writes_disabled (trace (snd (tool_change E n p s))) = valve_writes_disabled (trace s)"
  by (simp add: tool_change_def Let_def tool_preselect_def vw_prims vw_tool_change_manual vw_restore_state
      vw_swap_tools vw_atc_toolsetter_probe)
lemma vw_deactivate: "valve_writes_disabled (trace (deactivate E s)) = valve_writes_disabled (trace s)"
  by (simp add: deactivate_def deactivate_atc_def Let_def vw_prims vw_tool_change)
lemma vw_activate: "valve_writes_disabled (trace (activate E s)) = valve_writes_disabled (trace s)"
  by (simp add: activate_def Let_def vw_prims)
lemma vw_probe_notification: "valve_writes_disabled (trace (probe_notification s)) = valve_writes_disabled (trace s)"
  by (simp add: probe_notification_def)
lemma vw_atc_init_loop: "valve_writes_disabled (trace (snd (atc_init_loop E idx s))) = valve_writes_disabled (trace s)"
  by (induction idx arbitrary: s) (simp_all add: vw_prims)
lemma vw_init: "valve_writes_disabled (trace (init E s)) = valve_writes_disabled (trace s)"
  by (simp add: init_def atc_init_def Let_def vw_prims vw_atc_init_loop)

lemma vw_exec_call: "valve_writes_disabled (trace (exec_call E c s)) = valve_writes_disabled (trace s)"
  by (cases c) (simp_all add: vw_init vw_tool_change vw_tool_change_manual vw_take_tool vw_return_tool
      vw_set_ATC_state vw_atc_ETS_dustoff vw_atc_toolsetter_probe vw_probe_notification vw_deactivate vw_activate)

lemma vw_run: "valve_writes_disabled (trace (run E cs s)) = valve_writes_disabled (trace s)"
  by (induction cs arbitrary: s) (simp_all add: vw_exec_call)

subsection \<open>Only the initialisation writes \<open>atc_ok\<close>\<close>

lemma ok_prims:
  "atc_ok (log_msg l t s) = atc_ok s"
  "atc_ok (gc_exec_linef E b c s) = atc_ok s"
  "atc_ok (synchronousWrite p v s) = atc_ok s"
  "atc_ok (setAttr p s) = atc_ok s"
  "atc_ok (protocol_buffer_synchronize s) = atc_ok s"
  "atc_ok (set_current_tool n s) = atc_ok s"
  "atc_ok (assign_mpos i xs s) = atc_ok s"
  "atc_ok (record_offset s) = atc_ok s"
  by (simp_all add: prim_defs)

lemma ok_set_ATC_state: "atc_ok (snd (set_ATC_state b s)) = atc_ok s"
  by (simp add: set_ATC_state_def ok_prims)
lemma ok_goto_top_of_z: "atc_ok (goto_top_of_z E s) = atc_ok s"
  by (simp add: goto_top_of_z_def ok_prims)
lemma ok_go_above_tool: "atc_ok (go_above_tool E n s) = atc_ok s"
  by (simp add: go_above_tool_def Let_def ok_goto_top_of_z ok_prims)
lemma ok_atc_ETS_dustoff: "atc_ok (atc_ETS_dustoff E s) = atc_ok s"
  by (simp add: atc_ETS_dustoff_def ok_prims)
lemma ok_take_tool: "atc_ok (snd (take_tool E n s)) = atc_ok s"
  by (simp add: take_tool_def Let_def ok_goto_top_of_z ok_go_above_tool ok_set_ATC_state ok_prims)
lemma ok_return_tool: "atc_ok (snd (return_tool E n s)) = atc_ok s"
  by (simp add: return_tool_def Let_def ok_go_above_tool ok_set_ATC_state ok_prims)
lemma ok_probing_move: "atc_ok (probing_move E s) = atc_ok s"
  by (simp add: probing_move_def Let_def ok_goto_top_of_z ok_atc_ETS_dustoff ok_prims)
lemma ok_atc_toolsetter_probe: "atc_ok (snd (atc_toolsetter_probe E s)) = atc_ok s"
  by (simp add: atc_toolsetter_probe_def Let_def ok_goto_top_of_z ok_probing_move ok_prims)
lemma ok_tool_change_manual: "atc_ok (tool_change_manual E n s) = atc_ok s"
  by (simp add: tool_change_manual_def Let_def ok_set_ATC_state ok_prims)
lemma ok_restore_state: "atc_ok (restore_state E sn s) = atc_ok s"
  by (simp add: restore_state_def Let_def ok_prims)
lemma ok_swap_tools: "atc_ok (swap_tools E n sn s) = atc_ok s"
  by (simp add: swap_tools_def Let_def ok_goto_top_of_z ok_take_tool ok_return_tool ok_prims)
lemma ok_tool_change: "atc_ok (snd (tool_change E n p s)) = atc_ok s"
  by (simp add: tool_change_def Let_def tool_preselect_def ok_tool_change_manual ok_restore_state
      ok_swap_tools ok_atc_toolsetter_probe ok_prims)
lemma ok_deactivate: "atc_ok (deactivate E s) = atc_ok s"
  by (simp add: deactivate_def deactivate_atc_def Let_def ok_tool_change ok_prims)
lemma ok_exec_call: "c \<noteq> Call_init \<Longrightarrow> atc_ok (exec_call E c s) = atc_ok s"
  by (cases c) (simp_all add: ok_tool_change ok_tool_change_manual ok_take_tool ok_return_tool
      ok_set_ATC_state ok_atc_ETS_dustoff ok_atc_toolsetter_probe probe_notification_def ok_deactivate
      activate_def Let_def ok_prims)
lemma ok_run: "Call_init \<notin> set cs \<Longrightarrow> atc_ok (run E cs s) = atc_ok s"
proof (induction cs arbitrary: s)
  case Nil
  show ?case by simp
next
  case (Cons c cs)
  from Cons.prems have c: "c \<noteq> Call_init" and cs: "Call_init \<notin> set cs"
    by auto
  have "atc_ok (run E (c # cs) s) = atc_ok (run E cs (exec_call E c s))"
    by simp
  also have "\<dots> = atc_ok (exec_call E c s)"
    using cs by (rule Cons.IH)
  also have "\<dots> = atc_ok s"
    using c by (rule ok_exec_call)
  finally show ?case .
qed

subsection \<open>Rejected and preselecting tool changes\<close>

lemma tool_change_not_ok:
  "\<not> atc_ok s \<Longrightarrow> tool_change E n p s =
     (False, s\<lparr>logged := logged s @ [(Debug, '' tool change to: From: Preselect:''),
                                     (Error, ''ATC not initialized, toolchange failed'')]\<rparr>)"
  by (simp add: tool_change_def is_ATC_ok_def log_msg_def)

text \<open>Claim C5. The initialisation fails, and leaves \<open>atc_ok\<close> false, whenever the
  spin-down delay of the spindle is zero, or the position list of the toolsetter or of one
  of the tool slots does not have exactly three components. As long as \<open>atc_ok\<close> is false
  (it stays false through every call other than the initialisation), a tool change is
  rejected at once: it returns false and changes nothing but the log, so it sends no
  G-code line and writes no pin.\<close>

theorem fail_fast_initialisation:
  "((spindown_ms E = 0 \<or> length (ets_mpos E) \<noteq> 3 \<or> (\<exists>i<TOOL_COUNT E. length (tool_mpos E i) \<noteq> 3))
      \<longrightarrow> \<not> fst (atc_init E s0) \<and> \<not> atc_ok (init E s0))
   \<and> (\<not> atc_ok s \<and> Call_init \<notin> set cs \<longrightarrow>
        \<not> atc_ok (run E cs s)
        \<and> tool_change E new_tool pre_select (run E cs s) =
            (False, (run E cs s)\<lparr>logged := logged (run E cs s) @
               [(Debug, '' tool change to: From: Preselect:''),
                (Error, ''ATC not initialized, toolchange failed'')]\<rparr>)
        \<and> trace (snd (tool_change E new_tool pre_select (run E cs s))) = trace (run E cs s)
        \<and> machine (snd (tool_change E new_tool pre_select (run E cs s))) = machine (run E cs s)
        \<and> current_tool (snd (tool_change E new_tool pre_select (run E cs s))) = current_tool (run E cs s))"
proof (intro conjI impI)
  assume bad: "spindown_ms E = 0 \<or> length (ets_mpos E) \<noteq> 3 \<or> (\<exists>i<TOOL_COUNT E. length (tool_mpos E i) \<noteq> 3)"
  then show "\<not> fst (atc_init E s0)"
    by (auto simp add: atc_init_ok_iff)
  from bad show "\<not> atc_ok (init E s0)"
    by (auto simp add: init_atc_ok atc_init_ok_iff)
next
  assume h: "\<not> atc_ok s \<and> Call_init \<notin> set cs"
  then show n: "\<not> atc_ok (run E cs s)"
    by (simp add: ok_run)
  then show "tool_change E new_tool pre_select (run E cs s) =
            (False, (run E cs s)\<lparr>logged := logged (run E cs s) @
               [(Debug, '' tool change to: From: Preselect:''),
                (Error, ''ATC not initialized, toolchange failed'')]\<rparr>)"
    by (rule tool_change_not_ok)
  from n show "trace (snd (tool_change E new_tool pre_select (run E cs s))) = trace (run E cs s)"
    by (simp add: tool_change_not_ok)
  from n show "machine (snd (tool_change E new_tool pre_select (run E cs s))) = machine (run E cs s)"
    by (simp add: tool_change_not_ok)
  from n show "current_tool (snd (tool_change E new_tool pre_select (run E cs s))) = current_tool (run E cs s)"
    by (simp add: tool_change_not_ok)
qed

theorem fail_fast_initialisation_witness:
  "length (ets_mpos (sim_env\<lparr>ets_mpos := [157, 142]\<rparr>)) \<noteq> 3
   \<and> \<not> atc_ok (init (sim_env\<lparr>ets_mpos := [157, 142]\<rparr>) fresh_atc)
   \<and> Call_init \<notin> set [Call_probe_notification, Call_activate, Call_set_ATC_state True]
   \<and> fst (tool_change (sim_env\<lparr>ets_mpos := [157, 142]\<rparr>) 1 False
        (run (sim_env\<lparr>ets_mpos := [157, 142]\<rparr>)
           [Call_probe_notification, Call_activate, Call_set_ATC_state True]
           (init (sim_env\<lparr>ets_mpos := [157, 142]\<rparr>) fresh_atc))) = False
   \<and> trace (snd (tool_change (sim_env\<lparr>ets_mpos := [157, 142]\<rparr>) 1 False
        (run (sim_env\<lparr>ets_mpos := [157, 142]\<rparr>)
           [Call_probe_notification, Call_activate, Call_set_ATC_state True]
           (init (sim_env\<lparr>ets_mpos := [157, 142]\<rparr>) fresh_atc))))
      = trace (run (sim_env\<lparr>ets_mpos := [157, 142]\<rparr>)
           [Call_probe_notification, Call_activate, Call_set_ATC_state True]
           (init (sim_env\<lparr>ets_mpos := [157, 142]\<rparr>) fresh_atc))"
proof -
  have a: "length (ets_mpos (sim_env\<lparr>ets_mpos := [157, 142]\<rparr>)) \<noteq> 3"
    by simp
  have b: "Call_init \<notin> set [Call_probe_notification, Call_activate, Call_set_ATC_state True :: int atc_call]"
    by simp
  note t = fail_fast_initialisation [of "sim_env\<lparr>ets_mpos := [157, 142]\<rparr>" fresh_atc
      "init (sim_env\<lparr>ets_mpos := [157, 142]\<rparr>) fresh_atc"
      "[Call_probe_notification, Call_activate, Call_set_ATC_state True]" 1 False]
  from t a have c: "\<not> atc_ok (init (sim_env\<lparr>ets_mpos := [157, 142]\<rparr>) fresh_atc)"
    by blast
  from t b c a show ?thesis
    by simp
qed

text \<open>Claim C10. The initialisation also fails, and leaves \<open>atc_ok\<close> false, whenever the
  pin of the holder valve is not defined, whatever the position lists and the spin-down
  delay are (the concrete evaluation has three components in every list and a delay of
  4000 ms); the tool change that follows is rejected.\<close>

theorem undefined_valve_pin_fails_initialisation:
  "\<not> atc_valve_pin_defined E \<longrightarrow>
     \<not> fst (atc_init E s) \<and> \<not> atc_ok (init E s)
     \<and> tool_change E new_tool pre_select (init E s) =
         (False, (init E s)\<lparr>logged := logged (init E s) @
            [(Debug, '' tool change to: From: Preselect:''),
             (Error, ''ATC not initialized, toolchange failed'')]\<rparr>)"
proof
  assume u: "\<not> atc_valve_pin_defined E"
  then have a: "\<not> fst (atc_init E s)"
    by (simp add: atc_init_ok_iff)
  from u have b: "\<not> atc_ok (init E s)"
    by (simp add: init_atc_ok atc_init_ok_iff)
  from a b tool_change_not_ok [OF b]
  show "\<not> fst (atc_init E s) \<and> \<not> atc_ok (init E s)
     \<and> tool_change E new_tool pre_select (init E s) =
         (False, (init E s)\<lparr>logged := logged (init E s) @
            [(Debug, '' tool change to: From: Preselect:''),
             (Error, ''ATC not initialized, toolchange failed'')]\<rparr>)"
    by simp
qed

theorem undefined_valve_pin_fails_initialisation_witness:
  "spindown_ms (sim_env\<lparr>atc_valve_pin_defined := False\<rparr>) \<noteq> 0
   \<and> length (ets_mpos (sim_env\<lparr>atc_valve_pin_defined := False\<rparr>)) = 3
   \<and> TOOL_COUNT (sim_env\<lparr>atc_valve_pin_defined := False\<rparr>) = 4
   \<and> map (\<lambda>i. length (tool_mpos (sim_env\<lparr>atc_valve_pin_defined := False\<rparr>) i)) [0, 1, 2, 3]
       = [3, 3, 3, 3]
   \<and> \<not> atc_valve_pin_defined (sim_env\<lparr>atc_valve_pin_defined := False\<rparr>)
   \<and> \<not> fst (atc_init (sim_env\<lparr>atc_valve_pin_defined := False\<rparr>) fresh_atc)
   \<and> \<not> atc_ok (init (sim_env\<lparr>atc_valve_pin_defined := False\<rparr>) fresh_atc)
   \<and> fst (tool_change (sim_env\<lparr>atc_valve_pin_defined := False\<rparr>) 1 False
            (init (sim_env\<lparr>atc_valve_pin_defined := False\<rparr>) fresh_atc)) = False"
proof -
  have a: "\<not> atc_valve_pin_defined (sim_env\<lparr>atc_valve_pin_defined := False\<rparr>)"
    by simp
  have b: "spindown_ms (sim_env\<lparr>atc_valve_pin_defined := False\<rparr>) \<noteq> 0
   \<and> length (ets_mpos (sim_env\<lparr>atc_valve_pin_defined := False\<rparr>)) = 3
   \<and> TOOL_COUNT (sim_env\<lparr>atc_valve_pin_defined := False\<rparr>) = 4
   \<and> map (\<lambda>i. length (tool_mpos (sim_env\<lparr>atc_valve_pin_defined := False\<rparr>) i)) [0, 1, 2, 3]
       = [3, 3, 3, 3]"
    by (simp add: sim_env_def)
  from a b undefined_valve_pin_fails_initialisation
      [of "sim_env\<lparr>atc_valve_pin_defined := False\<rparr>" fresh_atc 1 False]
  show ?thesis by simp
qed

text \<open>Claim C9. A tool change with \<open>pre_select\<close> set that passes the validation
  (\<open>atc_ok\<close> true and the tool number not above the number of the manual change)
  returns true after the preselect notification alone: the state after the call is the
  state before it with two log entries added, so no G-code line is sent, no pin is written,
  and \<open>current_tool\<close> and the machine state are as before.\<close>

theorem preselect_only_notifies:
  "atc_ok s \<and> new_tool \<le> MANUAL_CHG E \<longrightarrow>
     tool_change E new_tool True s =
       (True, s\<lparr>logged := logged s @ [(Debug, '' tool change to: From: Preselect:''),
                                       (Warn, ''Tool preselect not implemented:'')]\<rparr>)
     \<and> trace (snd (tool_change E new_tool True s)) = trace s
     \<and> current_tool (snd (tool_change E new_tool True s)) = current_tool s
     \<and> machine (snd (tool_change E new_tool True s)) = machine s"
  by (simp add: tool_change_def is_ATC_ok_def log_msg_def tool_preselect_def)

theorem preselect_only_notifies_witness:
  "atc_ok ready_atc \<and> 2 \<le> MANUAL_CHG sim_env
   \<and> tool_change sim_env 2 True ready_atc =
       (True, ready_atc\<lparr>logged := [(Debug, '' tool change to: From: Preselect:''),
                                       (Warn, ''Tool preselect not implemented:'')]\<rparr>)
   \<and> trace (snd (tool_change sim_env 2 True ready_atc)) = []"
proof -
  have a: "atc_ok ready_atc \<and> 2 \<le> MANUAL_CHG sim_env"
    by (simp add: ready_atc_def sim_env_def)
  have b: "logged ready_atc = [] \<and> trace ready_atc = []"
    by (simp add: ready_atc_def fresh_atc_def)
  from a b preselect_only_notifies [of ready_atc 2 sim_env] show ?thesis
    by simp
qed

subsection \<open>The interlock of the holder valve\<close>

lemma valve_writes_disabledD:
  "valve_writes_disabled tr \<Longrightarrow> PinWrite atc_valve_pin v sp \<in> set tr \<Longrightarrow> sp = Disable"
  by (auto simp add: valve_writes_disabled_def list_all_iff)

text \<open>Claim C1. The holder valve is never written while the modal state of the spindle is
  enabled. A call of \<open>set_ATC_state\<close> in a state where the spindle is not disabled returns
  false and leaves everything but the log as it was, the list of actions included (no write
  to the valve pin); in a state where it is disabled the call returns true and writes the
  pin once. Through every sequence of calls of the object, interleaved with any G-code
  lines, every write to the valve pin is made in a state where the spindle is disabled.\<close>

theorem valve_written_only_with_spindle_disabled:
  "(modal_spindle (machine s) \<noteq> Disable \<longrightarrow>
      set_ATC_state opn s =
        (False, s\<lparr>logged := logged s @ [(Error, ''Spindle active when trying to operate ATC'')]\<rparr>)
      \<and> trace (snd (set_ATC_state opn s)) = trace s)
   \<and> (modal_spindle (machine s) = Disable \<longrightarrow>
      set_ATC_state opn s = (True, s\<lparr>trace := trace s @ [PinWrite atc_valve_pin opn Disable]\<rparr>))
   \<and> (valve_writes_disabled (trace s0) \<longrightarrow> valve_writes_disabled (trace (run E cs s0)))
   \<and> (trace s0 = [] \<longrightarrow>
        (\<forall>v sp. PinWrite atc_valve_pin v sp \<in> set (trace (run E cs s0)) \<longrightarrow> sp = Disable))"
proof (intro conjI impI allI)
  assume "modal_spindle (machine s) \<noteq> Disable"
  then show "set_ATC_state opn s =
        (False, s\<lparr>logged := logged s @ [(Error, ''Spindle active when trying to operate ATC'')]\<rparr>)"
    and "trace (snd (set_ATC_state opn s)) = trace s"
    by (simp_all add: set_ATC_state_def log_msg_def)
next
  assume "modal_spindle (machine s) = Disable"
  then show "set_ATC_state opn s = (True, s\<lparr>trace := trace s @ [PinWrite atc_valve_pin opn Disable]\<rparr>)"
    by (simp add: set_ATC_state_def synchronousWrite_def)
next
  assume "valve_writes_disabled (trace s0)"
  then show "valve_writes_disabled (trace (run E cs s0))"
    by (simp add: vw_run)
next
  fix v sp
  assume e: "trace s0 = []" and w: "PinWrite atc_valve_pin v sp \<in> set (trace (run E cs s0))"
  from e have "valve_writes_disabled (trace s0)"
    by (simp add: valve_writes_disabled_def)
  then have "valve_writes_disabled (trace (run E cs s0))"
    by (simp add: vw_run)
  from this w show "sp = Disable"
    by (rule valve_writes_disabledD)
qed

theorem valve_written_only_with_spindle_disabled_witness:
  "modal_spindle (machine (ready_atc\<lparr>machine := idle_machine\<lparr>modal_spindle := Cw\<rparr>\<rparr>)) \<noteq> Disable
   \<and> set_ATC_state True (ready_atc\<lparr>machine := idle_machine\<lparr>modal_spindle := Cw\<rparr>\<rparr>) =
        (False, ready_atc\<lparr>machine := idle_machine\<lparr>modal_spindle := Cw\<rparr>,
                  logged := [(Error, ''Spindle active when trying to operate ATC'')]\<rparr>)
   \<and> trace (snd (set_ATC_state True (ready_atc\<lparr>machine := idle_machine\<lparr>modal_spindle := Cw\<rparr>\<rparr>))) = []
   \<and> modal_spindle (machine ready_atc) = Disable
   \<and> set_ATC_state True ready_atc = (True, ready_atc\<lparr>trace := [PinWrite atc_valve_pin True Disable]\<rparr>)
   \<and> trace fresh_atc = []
   \<and> valve_writes_disabled (trace fresh_atc)
   \<and> valve_writes_disabled (trace (run sim_env
        [Call_init, Other_gcode M3, Call_set_ATC_state True, Call_tool_change 1 False,
         Other_gcode M3, Call_take_tool 2, Call_deactivate] fresh_atc))"
proof -
  have a: "modal_spindle (machine (ready_atc\<lparr>machine := idle_machine\<lparr>modal_spindle := Cw\<rparr>\<rparr>)) \<noteq> Disable"
    by simp
  have b: "modal_spindle (machine ready_atc) = Disable"
    by (simp add: ready_atc_def fresh_atc_def idle_machine_def)
  have c: "trace fresh_atc = []" "trace ready_atc = []" "logged ready_atc = []"
    by (simp_all add: ready_atc_def fresh_atc_def)
  have d: "valve_writes_disabled (trace fresh_atc)"
    by (simp add: c valve_writes_disabled_def)
  note t1 = valve_written_only_with_spindle_disabled
    [of "ready_atc\<lparr>machine := idle_machine\<lparr>modal_spindle := Cw\<rparr>\<rparr>" True fresh_atc sim_env
      "[Call_init, Other_gcode M3, Call_set_ATC_state True, Call_tool_change 1 False,
         Other_gcode M3, Call_take_tool 2, Call_deactivate]"]
  note t2 = valve_written_only_with_spindle_disabled [of ready_atc True fresh_atc sim_env "[]"]
  from t1 a have e: "set_ATC_state True (ready_atc\<lparr>machine := idle_machine\<lparr>modal_spindle := Cw\<rparr>\<rparr>) =
        (False, ready_atc\<lparr>machine := idle_machine\<lparr>modal_spindle := Cw\<rparr>,
                  logged := [(Error, ''Spindle active when trying to operate ATC'')]\<rparr>)"
    by (simp add: c)
  from t1 a have f: "trace (snd (set_ATC_state True (ready_atc\<lparr>machine := idle_machine\<lparr>modal_spindle := Cw\<rparr>\<rparr>))) = []"
    by (simp add: c)
  from t2 b have g: "set_ATC_state True ready_atc = (True, ready_atc\<lparr>trace := [PinWrite atc_valve_pin True Disable]\<rparr>)"
    by (simp add: c)
  from t1 d have h: "valve_writes_disabled (trace (run sim_env
        [Call_init, Other_gcode M3, Call_set_ATC_state True, Call_tool_change 1 False,
         Other_gcode M3, Call_take_tool 2, Call_deactivate] fresh_atc))"
    by blast
  from a e f b g c(1) d h show ?thesis
    by blast
qed

subsection \<open>Measuring the tool\<close>

lemma probing_move_frame:
  "current_tool (probing_move E s) = current_tool s"
  "zeroed_tool_index (probing_move E s) = zeroed_tool_index s"
  "tool (probing_move E s) = tool s"
  "top_of_z (probing_move E s) = top_of_z s"
  by (simp_all add: probing_move_def atc_ETS_dustoff_def goto_top_of_z_def Let_def prim_defs)

lemma probe_alarm:
  "sys_state (machine (probing_move E s)) = Alarm \<Longrightarrow>
     atc_toolsetter_probe E s =
       (False, (probing_move E s)\<lparr>logged := logged (probing_move E s) @
          [(Error, if lastAlarm (machine (probing_move E s)) = ProbeFailInitial
                   then ''ATC Probe Switch Error'' else ''ATC Probe Missing Tool Error'')]\<rparr>)"
  by (simp add: atc_toolsetter_probe_def Let_def log_msg_def)

lemma probe_no_alarm:
  assumes "sys_state (machine (probing_move E s)) \<noteq> Alarm"
  shows "fst (atc_toolsetter_probe E s) = True"
    and "offset (tool (snd (atc_toolsetter_probe E s)) (current_tool s)) Z_AXIS
           = probe_mpos (machine (probing_move E s)) Z_AXIS"
    and "current_tool (snd (atc_toolsetter_probe E s)) = current_tool s"
    and "zeroed_tool_index (snd (atc_toolsetter_probe E s)) = zeroed_tool_index s"
    and "trace (snd (atc_toolsetter_probe E s)) = trace (probing_move E s) @
           (if zeroed_tool_index s \<noteq> 0
            then [GCode False (G43_1
                    (offset (tool (snd (atc_toolsetter_probe E s)) (current_tool s)) Z_AXIS
                      - offset (tool (snd (atc_toolsetter_probe E s)) (zeroed_tool_index s)) Z_AXIS))]
            else [])
           @ [GCode True (G53_G0_Z (top_of_z s))]"
  using assms
  by (simp_all add: atc_toolsetter_probe_def Let_def goto_top_of_z_def prim_defs probing_move_frame)

text \<open>Claim C4. After the probing move: in the alarm state with the cause
  \<open>ProbeFailInitial\<close> the measurement fails with the probe switch error; in the alarm state
  with any other cause it fails with the missing tool error; without an alarm it succeeds,
  the Z offset of the slot of \<open>current_tool\<close> is the probed machine position in Z, and
  when there is a zeroed tool (\<open>zeroed_tool_index\<close> is not 0) the line \<^verbatim>\<open>G43.1\<close> is sent
  with the offset of the current tool minus the offset of the zeroed tool, before the
  return to the safe height.\<close>

theorem probe_outcome_mapping:
  "(sys_state (machine (probing_move E s)) = Alarm
      \<and> lastAlarm (machine (probing_move E s)) = ProbeFailInitial \<longrightarrow>
        atc_toolsetter_probe E s =
          (False, (probing_move E s)\<lparr>logged := logged (probing_move E s) @
             [(Error, ''ATC Probe Switch Error'')]\<rparr>))
   \<and> (sys_state (machine (probing_move E s)) = Alarm
      \<and> lastAlarm (machine (probing_move E s)) \<noteq> ProbeFailInitial \<longrightarrow>
        atc_toolsetter_probe E s =
          (False, (probing_move E s)\<lparr>logged := logged (probing_move E s) @
             [(Error, ''ATC Probe Missing Tool Error'')]\<rparr>))
   \<and> (sys_state (machine (probing_move E s)) \<noteq> Alarm \<longrightarrow>
        fst (atc_toolsetter_probe E s) = True
        \<and> offset (tool (snd (atc_toolsetter_probe E s)) (current_tool s)) Z_AXIS
            = probe_mpos (machine (probing_move E s)) Z_AXIS
        \<and> current_tool (snd (atc_toolsetter_probe E s)) = current_tool s
        \<and> zeroed_tool_index (snd (atc_toolsetter_probe E s)) = zeroed_tool_index s
        \<and> trace (snd (atc_toolsetter_probe E s)) = trace (probing_move E s) @
           (if zeroed_tool_index s \<noteq> 0
            then [GCode False (G43_1
                    (offset (tool (snd (atc_toolsetter_probe E s)) (current_tool s)) Z_AXIS
                      - offset (tool (snd (atc_toolsetter_probe E s)) (zeroed_tool_index s)) Z_AXIS))]
            else [])
           @ [GCode True (G53_G0_Z (top_of_z s))])"
proof (intro conjI impI)
  assume "sys_state (machine (probing_move E s)) = Alarm
      \<and> lastAlarm (machine (probing_move E s)) = ProbeFailInitial"
  then show "atc_toolsetter_probe E s =
          (False, (probing_move E s)\<lparr>logged := logged (probing_move E s) @
             [(Error, ''ATC Probe Switch Error'')]\<rparr>)"
    by (simp add: probe_alarm)
next
  assume "sys_state (machine (probing_move E s)) = Alarm
      \<and> lastAlarm (machine (probing_move E s)) \<noteq> ProbeFailInitial"
  then show "atc_toolsetter_probe E s =
          (False, (probing_move E s)\<lparr>logged := logged (probing_move E s) @
             [(Error, ''ATC Probe Missing Tool Error'')]\<rparr>)"
    by (simp add: probe_alarm)
next
  assume n: "sys_state (machine (probing_move E s)) \<noteq> Alarm"
  show "fst (atc_toolsetter_probe E s) = True"
    by (rule probe_no_alarm(1) [OF n])
  show "offset (tool (snd (atc_toolsetter_probe E s)) (current_tool s)) Z_AXIS
            = probe_mpos (machine (probing_move E s)) Z_AXIS"
    by (rule probe_no_alarm(2) [OF n])
  show "current_tool (snd (atc_toolsetter_probe E s)) = current_tool s"
    by (rule probe_no_alarm(3) [OF n])
  show "zeroed_tool_index (snd (atc_toolsetter_probe E s)) = zeroed_tool_index s"
    by (rule probe_no_alarm(4) [OF n])
  show "trace (snd (atc_toolsetter_probe E s)) = trace (probing_move E s) @
           (if zeroed_tool_index s \<noteq> 0
            then [GCode False (G43_1
                    (offset (tool (snd (atc_toolsetter_probe E s)) (current_tool s)) Z_AXIS
                      - offset (tool (snd (atc_toolsetter_probe E s)) (zeroed_tool_index s)) Z_AXIS))]
            else [])
           @ [GCode True (G53_G0_Z (top_of_z s))]"
    by (rule probe_no_alarm(5) [OF n])
qed

lemma gc_sim_sys_state: "sys_state (gc_sim line m) = sys_state m"
  by (cases line) simp_all

lemma gc_sim_lastAlarm: "lastAlarm (gc_sim line m) = lastAlarm m"
  by (cases line) simp_all

lemma sim_probing_move_alarm:
  "sys_state (machine (probing_move sim_env s)) = sys_state (machine s)"
  "lastAlarm (machine (probing_move sim_env s)) = lastAlarm (machine s)"
  by (simp_all add: probing_move_def atc_ETS_dustoff_def goto_top_of_z_def Let_def prim_defs
      sim_env_def gc_sim_sys_state gc_sim_lastAlarm)

lemmas sample_defs = sim_env_def ready_atc_def fresh_atc_def idle_machine_def

lemmas step_defs = goto_top_of_z_def go_above_tool_def atc_ETS_dustoff_def set_ATC_state_def
  probing_move_def Let_def

theorem probe_outcome_mapping_witness:
  "sys_state (machine (probing_move sim_env
      (ready_atc\<lparr>machine := idle_machine\<lparr>sys_state := Alarm, lastAlarm := ProbeFailInitial\<rparr>\<rparr>))) = Alarm
   \<and> lastAlarm (machine (probing_move sim_env
      (ready_atc\<lparr>machine := idle_machine\<lparr>sys_state := Alarm, lastAlarm := ProbeFailInitial\<rparr>\<rparr>)))
       = ProbeFailInitial
   \<and> fst (atc_toolsetter_probe sim_env
      (ready_atc\<lparr>machine := idle_machine\<lparr>sys_state := Alarm, lastAlarm := ProbeFailInitial\<rparr>\<rparr>)) = False
   \<and> logged (snd (atc_toolsetter_probe sim_env
      (ready_atc\<lparr>machine := idle_machine\<lparr>sys_state := Alarm, lastAlarm := ProbeFailInitial\<rparr>\<rparr>)))
       = [(Error, ''ATC Probe Switch Error'')]
   \<and> sys_state (machine (probing_move sim_env
      (ready_atc\<lparr>machine := idle_machine\<lparr>sys_state := Alarm, lastAlarm := ProbeFailContact\<rparr>\<rparr>))) = Alarm
   \<and> lastAlarm (machine (probing_move sim_env
      (ready_atc\<lparr>machine := idle_machine\<lparr>sys_state := Alarm, lastAlarm := ProbeFailContact\<rparr>\<rparr>)))
       \<noteq> ProbeFailInitial
   \<and> fst (atc_toolsetter_probe sim_env
      (ready_atc\<lparr>machine := idle_machine\<lparr>sys_state := Alarm, lastAlarm := ProbeFailContact\<rparr>\<rparr>)) = False
   \<and> logged (snd (atc_toolsetter_probe sim_env
      (ready_atc\<lparr>machine := idle_machine\<lparr>sys_state := Alarm, lastAlarm := ProbeFailContact\<rparr>\<rparr>)))
       = [(Error, ''ATC Probe Missing Tool Error'')]
   \<and> sys_state (machine (probing_move sim_env
      (ready_atc\<lparr>current_tool := 2, zeroed_tool_index := 3,
         tool := (tool ready_atc)(3 := (tool ready_atc 3)\<lparr>offset := (\<lambda>a. 0)(Z_AXIS := -30)\<rparr>)\<rparr>))) \<noteq> Alarm
   \<and> fst (atc_toolsetter_probe sim_env
      (ready_atc\<lparr>current_tool := 2, zeroed_tool_index := 3,
         tool := (tool ready_atc)(3 := (tool ready_atc 3)\<lparr>offset := (\<lambda>a. 0)(Z_AXIS := -30)\<rparr>)\<rparr>)) = True
   \<and> offset (tool (snd (atc_toolsetter_probe sim_env
      (ready_atc\<lparr>current_tool := 2, zeroed_tool_index := 3,
         tool := (tool ready_atc)(3 := (tool ready_atc 3)\<lparr>offset := (\<lambda>a. 0)(Z_AXIS := -30)\<rparr>)\<rparr>))) 2) Z_AXIS = -1
   \<and> trace (snd (atc_toolsetter_probe sim_env
      (ready_atc\<lparr>current_tool := 2, zeroed_tool_index := 3,
         tool := (tool ready_atc)(3 := (tool ready_atc 3)\<lparr>offset := (\<lambda>a. 0)(Z_AXIS := -30)\<rparr>)\<rparr>))) =
       [PinWrite atc_dustoff_pin True Disable, GCode True (G4_P 0.5),
        PinWrite atc_dustoff_pin False Disable, GCode True (G53_G0_Z (-1)),
        GCode True (G53_G0_XY 157 142), GCode True (G38_2 300 (-31)),
        GCode False (G43_1 29), GCode True (G53_G0_Z (-1))]"
proof -
  let ?a = "ready_atc\<lparr>machine := idle_machine\<lparr>sys_state := Alarm, lastAlarm := ProbeFailInitial\<rparr>\<rparr>"
  let ?b = "ready_atc\<lparr>machine := idle_machine\<lparr>sys_state := Alarm, lastAlarm := ProbeFailContact\<rparr>\<rparr>"
  let ?c = "ready_atc\<lparr>current_tool := 2, zeroed_tool_index := 3,
         tool := (tool ready_atc)(3 := (tool ready_atc 3)\<lparr>offset := (\<lambda>a. 0)(Z_AXIS := -30)\<rparr>)\<rparr>"
  have a: "sys_state (machine (probing_move sim_env ?a)) = Alarm"
    "lastAlarm (machine (probing_move sim_env ?a)) = ProbeFailInitial"
    by (simp_all add: sim_probing_move_alarm ready_atc_def fresh_atc_def idle_machine_def)
  have al: "logged (probing_move sim_env ?a) = []"
    by (simp add: step_defs prim_defs sample_defs)
  have b: "sys_state (machine (probing_move sim_env ?b)) = Alarm"
    "lastAlarm (machine (probing_move sim_env ?b)) \<noteq> ProbeFailInitial"
    by (simp_all add: sim_probing_move_alarm ready_atc_def fresh_atc_def idle_machine_def)
  have bl: "logged (probing_move sim_env ?b) = []"
    by (simp add: step_defs prim_defs sample_defs)
  have c: "sys_state (machine (probing_move sim_env ?c)) \<noteq> Alarm"
    by (simp add: sim_probing_move_alarm ready_atc_def fresh_atc_def idle_machine_def)
  have d: "trace (probing_move sim_env ?c) =
       [PinWrite atc_dustoff_pin True Disable, GCode True (G4_P 0.5),
        PinWrite atc_dustoff_pin False Disable, GCode True (G53_G0_Z (-1)),
        GCode True (G53_G0_XY 157 142), GCode True (G38_2 300 (-31))]"
    "probe_mpos (machine (probing_move sim_env ?c)) Z_AXIS = -1"
    by (simp_all add: step_defs prim_defs sample_defs)
  have e: "current_tool ?c = 2" "zeroed_tool_index ?c = 3" "top_of_z ?c = -1"
    by (simp_all add: sample_defs)
  note ta = probe_outcome_mapping [of sim_env ?a]
  note tb = probe_outcome_mapping [of sim_env ?b]
  note tc = probe_outcome_mapping [of sim_env ?c]
  from ta a al have a': "fst (atc_toolsetter_probe sim_env ?a) = False"
    "logged (snd (atc_toolsetter_probe sim_env ?a)) = [(Error, ''ATC Probe Switch Error'')]"
    by simp_all
  from tb b bl have b': "fst (atc_toolsetter_probe sim_env ?b) = False"
    "logged (snd (atc_toolsetter_probe sim_env ?b)) = [(Error, ''ATC Probe Missing Tool Error'')]"
    by simp_all
  from tc c have c1: "fst (atc_toolsetter_probe sim_env ?c) = True"
    and c2: "offset (tool (snd (atc_toolsetter_probe sim_env ?c)) (current_tool ?c)) Z_AXIS
            = probe_mpos (machine (probing_move sim_env ?c)) Z_AXIS"
    and c3: "trace (snd (atc_toolsetter_probe sim_env ?c)) = trace (probing_move sim_env ?c) @
           (if zeroed_tool_index ?c \<noteq> 0
            then [GCode False (G43_1
                    (offset (tool (snd (atc_toolsetter_probe sim_env ?c)) (current_tool ?c)) Z_AXIS
                      - offset (tool (snd (atc_toolsetter_probe sim_env ?c)) (zeroed_tool_index ?c)) Z_AXIS))]
            else [])
           @ [GCode True (G53_G0_Z (top_of_z ?c))]"
    by blast+
  have f: "offset (tool (snd (atc_toolsetter_probe sim_env ?c)) 3) Z_AXIS = -30"
    using c
    by (simp add: atc_toolsetter_probe_def Let_def goto_top_of_z_def prim_defs probing_move_frame)
  from c2 have c2': "offset (tool (snd (atc_toolsetter_probe sim_env ?c)) 2) Z_AXIS = -1"
    by (simp only: e d)
  from c3 have c3': "trace (snd (atc_toolsetter_probe sim_env ?c)) =
       [PinWrite atc_dustoff_pin True Disable, GCode True (G4_P 0.5),
        PinWrite atc_dustoff_pin False Disable, GCode True (G53_G0_Z (-1)),
        GCode True (G53_G0_XY 157 142), GCode True (G38_2 300 (-31)),
        GCode False (G43_1 29), GCode True (G53_G0_Z (-1))]"
    by (simp add: e d c2' f)
  from a a' b b' c c1 c2' c3' show ?thesis
    by blast
qed

lemma probe_notification_while_probing: "tool_setter_probing s \<Longrightarrow> probe_notification s = s"
  by (simp add: probe_notification_def)

subsection \<open>Only the initialisation writes the safe height\<close>

lemma top_prims:
  "top_of_z (log_msg l t s) = top_of_z s"
  "top_of_z (gc_exec_linef E b c s) = top_of_z s"
  "top_of_z (synchronousWrite p v s) = top_of_z s"
  "top_of_z (protocol_buffer_synchronize s) = top_of_z s"
  "top_of_z (set_current_tool n s) = top_of_z s"
  "top_of_z (record_offset s) = top_of_z s"
  by (simp_all add: prim_defs)

lemma top_set_ATC_state: "top_of_z (snd (set_ATC_state b s)) = top_of_z s"
  by (simp add: set_ATC_state_def top_prims)

subsection \<open>Picking up a tool\<close>

lemma take_tool_returns_true: "fst (take_tool E tool_num s) = True"
  by (simp add: take_tool_def Let_def)

lemma return_tool_returns_true: "fst (return_tool E tool_num s) = True"
  by (simp add: return_tool_def Let_def)

lemma take_tool_current_tool: "current_tool (snd (take_tool E tool_num s)) = tool_num"
  by (simp add: take_tool_def goto_top_of_z_def Let_def prim_defs)

lemma set_ATC_state_trace:
  "trace (snd (set_ATC_state b s)) = trace s @
     (if modal_spindle (machine s) = Disable then [PinWrite atc_valve_pin b Disable] else [])"
  by (simp add: set_ATC_state_def synchronousWrite_def log_msg_def)

lemma set_ATC_state_tool: "tool (snd (set_ATC_state b s)) = tool s"
  by (simp add: set_ATC_state_def synchronousWrite_def log_msg_def)

text \<open>\<open>take_tool\<close> in terms of the two states in which it calls \<open>set_ATC_state\<close>.\<close>

lemma take_tool_split:
  "snd (take_tool E tool_num s) =
     goto_top_of_z E (set_current_tool tool_num
       (gc_exec_linef E True (G4_P (TOOL_GRAB_TIME E))
         (snd (set_ATC_state False (take_tool_at_close E tool_num s)))))"
  by (simp add: take_tool_def take_tool_at_open_def take_tool_at_close_def Let_def)

lemma take_tool_at_open_frame:
  "trace (take_tool_at_open E tool_num s) = trace s @
     [GCode True (G53_G0_Z (top_of_z s)),
      GCode False (G53_G0_XY (mpos (tool s tool_num) X_AXIS) (mpos (tool s tool_num) Y_AXIS))]"
  "tool (take_tool_at_open E tool_num s) = tool s"
  "top_of_z (take_tool_at_open E tool_num s) = top_of_z s"
  by (simp_all add: take_tool_at_open_def go_above_tool_def goto_top_of_z_def Let_def prim_defs)

lemma take_tool_at_close_frame:
  "trace (take_tool_at_close E tool_num s) = trace (take_tool_at_open E tool_num s) @
     (if modal_spindle (machine (take_tool_at_open E tool_num s)) = Disable
      then [PinWrite atc_valve_pin True Disable] else []) @
     [GCode True (G4_P 0.25),
      GCode True (G53_G0_Z (mpos (tool s tool_num) Z_AXIS)),
      GCode True (G4_P 0.25)]"
  "top_of_z (take_tool_at_close E tool_num s) = top_of_z s"
  by (simp_all add: take_tool_at_close_def Let_def gc_exec_linef_def set_ATC_state_trace
      set_ATC_state_tool top_set_ATC_state take_tool_at_open_frame)

lemma take_tool_trace:
  "trace (snd (take_tool E tool_num s)) = trace s @
     [GCode True (G53_G0_Z (top_of_z s)),
      GCode False (G53_G0_XY (mpos (tool s tool_num) X_AXIS) (mpos (tool s tool_num) Y_AXIS))] @
     (if modal_spindle (machine (take_tool_at_open E tool_num s)) = Disable
      then [PinWrite atc_valve_pin True Disable] else []) @
     [GCode True (G4_P 0.25),
      GCode True (G53_G0_Z (mpos (tool s tool_num) Z_AXIS)),
      GCode True (G4_P 0.25)] @
     (if modal_spindle (machine (take_tool_at_close E tool_num s)) = Disable
      then [PinWrite atc_valve_pin False Disable] else []) @
     [GCode True (G4_P (TOOL_GRAB_TIME E)),
      ToolAssigned tool_num,
      GCode True (G53_G0_Z (top_of_z s))]"
  by (simp add: take_tool_split goto_top_of_z_def gc_exec_linef_def set_current_tool_def
      set_ATC_state_trace top_set_ATC_state take_tool_at_close_frame take_tool_at_open_frame)

text \<open>Claim C8, as amended. For every tool number, when the modal state of the spindle is
  disabled in the two states in which \<open>take_tool\<close> writes the holder valve, so that the
  interlock accepts both writes, \<open>take_tool\<close> performs exactly, in this order: the travel to
  the safe height, the move in X and Y above the slot, the opening of the holder, a dwell of
  0.25 s, the descent to the stored Z of the slot, a dwell of 0.25 s, the closing of the
  holder, the dwell of the grab time, the assignment of the tool number to \<open>current_tool\<close>,
  and the return to the safe height; \<open>current_tool\<close> is assigned after the grab sequence and
  nowhere before.\<close>

theorem take_tool_steps_in_order:
  "modal_spindle (machine (take_tool_at_open E tool_num s)) = Disable
   \<and> modal_spindle (machine (take_tool_at_close E tool_num s)) = Disable \<longrightarrow>
     fst (take_tool E tool_num s) = True
     \<and> trace (snd (take_tool E tool_num s)) = trace s @
        [GCode True (G53_G0_Z (top_of_z s)),
         GCode False (G53_G0_XY (mpos (tool s tool_num) X_AXIS) (mpos (tool s tool_num) Y_AXIS)),
         PinWrite atc_valve_pin True Disable,
         GCode True (G4_P 0.25),
         GCode True (G53_G0_Z (mpos (tool s tool_num) Z_AXIS)),
         GCode True (G4_P 0.25),
         PinWrite atc_valve_pin False Disable,
         GCode True (G4_P (TOOL_GRAB_TIME E)),
         ToolAssigned tool_num,
         GCode True (G53_G0_Z (top_of_z s))]
     \<and> current_tool (snd (take_tool E tool_num s)) = tool_num"
  by (simp add: take_tool_returns_true take_tool_trace take_tool_current_tool)

theorem take_tool_steps_in_order_witness:
  "modal_spindle (machine (take_tool_at_open sim_env 2 ready_atc)) = Disable
   \<and> modal_spindle (machine (take_tool_at_close sim_env 2 ready_atc)) = Disable
   \<and> fst (take_tool sim_env 2 ready_atc) = True
   \<and> trace (snd (take_tool sim_env 2 ready_atc)) =
        [GCode True (G53_G0_Z (-1)),
         GCode False (G53_G0_XY 237 142),
         PinWrite atc_valve_pin True Disable,
         GCode True (G4_P 0.25),
         GCode True (G53_G0_Z (-26)),
         GCode True (G4_P 0.25),
         PinWrite atc_valve_pin False Disable,
         GCode True (G4_P 0.25),
         ToolAssigned 2,
         GCode True (G53_G0_Z (-1))]
   \<and> current_tool (snd (take_tool sim_env 2 ready_atc)) = 2"
proof -
  have a: "modal_spindle (machine (take_tool_at_open sim_env 2 ready_atc)) = Disable"
    "modal_spindle (machine (take_tool_at_close sim_env 2 ready_atc)) = Disable"
    by code_simp+
  have b: "trace ready_atc = []" "top_of_z ready_atc = -1"
    "mpos (tool ready_atc 2) X_AXIS = 237" "mpos (tool ready_atc 2) Y_AXIS = 142"
    "mpos (tool ready_atc 2) Z_AXIS = -26" "TOOL_GRAB_TIME sim_env = 0.25"
    by (simp_all add: ready_atc_def fresh_atc_def sim_env_def)
  from take_tool_steps_in_order [of sim_env 2 ready_atc] a
  have c: "fst (take_tool sim_env 2 ready_atc) = True"
    "trace (snd (take_tool sim_env 2 ready_atc)) = trace ready_atc @
        [GCode True (G53_G0_Z (top_of_z ready_atc)),
         GCode False (G53_G0_XY (mpos (tool ready_atc 2) X_AXIS) (mpos (tool ready_atc 2) Y_AXIS)),
         PinWrite atc_valve_pin True Disable,
         GCode True (G4_P 0.25),
         GCode True (G53_G0_Z (mpos (tool ready_atc 2) Z_AXIS)),
         GCode True (G4_P 0.25),
         PinWrite atc_valve_pin False Disable,
         GCode True (G4_P (TOOL_GRAB_TIME sim_env)),
         ToolAssigned 2,
         GCode True (G53_G0_Z (top_of_z ready_atc))]"
    "current_tool (snd (take_tool sim_env 2 ready_atc)) = 2"
    by blast+
  have d: "trace (snd (take_tool sim_env 2 ready_atc)) =
        [GCode True (G53_G0_Z (-1)),
         GCode False (G53_G0_XY 237 142),
         PinWrite atc_valve_pin True Disable,
         GCode True (G4_P 0.25),
         GCode True (G53_G0_Z (-26)),
         GCode True (G4_P 0.25),
         PinWrite atc_valve_pin False Disable,
         GCode True (G4_P 0.25),
         ToolAssigned 2,
         GCode True (G53_G0_Z (-1))]"
    using c(2) by (simp add: b)
  from a c(1) d c(3) show ?thesis
    by (intro conjI)
qed

text \<open>The claim as stated, for every call, fails: with the spindle running the interlock
  rejects both valve writes, so the holder is neither opened nor closed and the actions are
  not the claimed sequence.\<close>

theorem take_tool_with_spindle_on_skips_valve:
  "modal_spindle (machine spinning_atc) = Cw
   \<and> trace (snd (take_tool sim_env 2 spinning_atc)) \<noteq> trace spinning_atc @
        [GCode True (G53_G0_Z (top_of_z spinning_atc)),
         GCode False (G53_G0_XY (mpos (tool spinning_atc 2) X_AXIS) (mpos (tool spinning_atc 2) Y_AXIS)),
         PinWrite atc_valve_pin True Disable,
         GCode True (G4_P 0.25),
         GCode True (G53_G0_Z (mpos (tool spinning_atc 2) Z_AXIS)),
         GCode True (G4_P 0.25),
         PinWrite atc_valve_pin False Disable,
         GCode True (G4_P (TOOL_GRAB_TIME sim_env)),
         ToolAssigned 2,
         GCode True (G53_G0_Z (top_of_z spinning_atc))]
   \<and> filter is_valve_write (trace (snd (take_tool sim_env 2 spinning_atc))) = []"
  by code_simp

text \<open>Claim C2. The claim has a rejected write to the holder valve inside \<open>take_tool\<close> or
  \<open>return_tool\<close> abort the tool change at once. In the code \<open>take_tool\<close> and \<open>return_tool\<close>
  drop the result of \<open>set_ATC_state\<close> and return true (\<open>take_tool_returns_true\<close>,
  \<open>return_tool_returns_true\<close>), and \<open>tool_change\<close> drops theirs. With the spindle running,
  both valve writes of \<open>take_tool\<close> and of \<open>return_tool\<close> are rejected, and yet every motion
  is sent, \<open>current_tool\<close> is assigned and the call returns true; a tool change whose
  \<^verbatim>\<open>M5\<close> line the interpreter refuses goes on through pickup, measurement and restore, and
  returns true.\<close>

theorem rejected_valve_write_does_not_abort:
  "modal_spindle (machine spinning_atc) = Cw
   \<and> fst (take_tool sim_env 2 spinning_atc) = True
   \<and> trace (snd (take_tool sim_env 2 spinning_atc)) =
       [GCode True (G53_G0_Z (-1)), GCode False (G53_G0_XY 237 142),
        GCode True (G4_P 0.25), GCode True (G53_G0_Z (-26)),
        GCode True (G4_P 0.25), GCode True (G4_P 0.25), ToolAssigned 2,
        GCode True (G53_G0_Z (-1))]
   \<and> logged (snd (take_tool sim_env 2 spinning_atc)) =
       [(Debug, ''Get tool: ''),
        (Error, ''Spindle active when trying to operate ATC''),
        (Error, ''Spindle active when trying to operate ATC'')]
   \<and> current_tool (snd (take_tool sim_env 2 spinning_atc)) = 2
   \<and> fst (return_tool sim_env 2 (spinning_atc\<lparr>current_tool := 2\<rparr>)) = True
   \<and> trace (snd (return_tool sim_env 2 (spinning_atc\<lparr>current_tool := 2\<rparr>))) =
       [GCode True (G53_G0_Z (-1)), GCode False (G53_G0_XY 237 142),
        GCode True (G53_G0_Z (-26)), GCode True (G53_G0_Z (-10)), ToolAssigned 0]
   \<and> current_tool (snd (return_tool sim_env 2 (spinning_atc\<lparr>current_tool := 2\<rparr>))) = 0
   \<and> fst (tool_change refusing_env 2 False spinning_atc) = True
   \<and> trace (snd (tool_change refusing_env 2 False spinning_atc)) =
       [BufferSync, GCode True M5, GCode True (G53_G0_Z (-1)),
        GCode True (G53_G0_Z (-1)), GCode False (G53_G0_XY 237 142),
        GCode True (G4_P 0.25), GCode True (G53_G0_Z (-26)),
        GCode True (G4_P 0.25), GCode True (G4_P 0.25), ToolAssigned 2,
        GCode True (G53_G0_Z (-1)), PinWrite atc_dustoff_pin True Cw,
        GCode True (G4_P 0.5), PinWrite atc_dustoff_pin False Cw,
        GCode True (G53_G0_Z (-1)), GCode True (G53_G0_XY 157 142),
        GCode True (G38_2 300 (-31)), GCode True (G53_G0_Z (-1)),
        GCode False (G53_G0_XYZ 50 60 (-1)), GCode False M3,
        GCode False (G53_G0_Z (-20))]
   \<and> current_tool (snd (tool_change refusing_env 2 False spinning_atc)) = 2"
  by code_simp

subsection \<open>The manual change\<close>

lemma manual_guard_never_true:
  "current_tool s = MANUAL_CHG E \<or> new_tool = MANUAL_CHG E \<Longrightarrow>
     \<not> ((current_tool s \<noteq> NO_TOOL E \<and> new_tool \<noteq> NO_TOOL E)
        \<and> (current_tool s \<noteq> MANUAL_CHG E \<and> new_tool \<noteq> MANUAL_CHG E))"
  by auto

lemma tool_change_manual_path:
  assumes "atc_ok s" and "new_tool \<le> MANUAL_CHG E"
    and "current_tool s = MANUAL_CHG E \<or> new_tool = MANUAL_CHG E"
    and "modal_spindle (machine s) = Disable"
  shows "tool_change E new_tool False s =
    (True, tool_change_manual E new_tool
       (protocol_buffer_synchronize (log_msg Debug '' tool change to: From: Preselect:'' s)))"
  using assms
  by (auto simp add: tool_change_def is_ATC_ok_def take_snapshot_def Let_def prim_defs)

text \<open>Claim C3. In the manual path with the spindle off, the claim lets the change succeed only
  between the empty holder and the manual change, and has a change with a real tool mounted
  on the other side fail without touching \<open>current_tool\<close> or the valve. The guard of line
  149 that should reject it is never true inside the branch of line 144
  (\<open>manual_guard_never_true\<close>), so the change always succeeds there
  (\<open>tool_change_manual_path\<close>). With tool 2 mounted and the manual change requested, the
  call returns true, toggles the valve and sets \<open>current_tool\<close> to the number of the manual
  change.\<close>

theorem manual_change_with_tool_mounted:
  "atc_ok (ready_atc\<lparr>current_tool := 2\<rparr>)
   \<and> modal_spindle (machine (ready_atc\<lparr>current_tool := 2\<rparr>)) = Disable
   \<and> MANUAL_CHG sim_env = 5 \<and> NO_TOOL sim_env = 0
   \<and> fst (tool_change sim_env 5 False (ready_atc\<lparr>current_tool := 2\<rparr>)) = True
   \<and> current_tool (snd (tool_change sim_env 5 False (ready_atc\<lparr>current_tool := 2\<rparr>))) = 5
   \<and> trace (snd (tool_change sim_env 5 False (ready_atc\<lparr>current_tool := 2\<rparr>))) =
       [BufferSync, PinWrite atc_valve_pin True Disable, GCode True (G4_P 2),
        PinWrite atc_valve_pin False Disable, ToolAssigned 5]"
  by code_simp

subsection \<open>Returning to the saved state\<close>

lemma distance_cases: "d \<noteq> Incremental \<Longrightarrow> d = Absolute"
  by (cases d) simp_all
















subsection \<open>What a tool change leaves as it is\<close>








subsection \<open>Returning a tool\<close>






subsection \<open>Deactivation\<close>








end
